theory Spec2Isabelle
  imports Complex_Main
begin

section \<open>Rotation detection for twist-to-confirm: the code of the technical reference\<close>

text \<open>
  The rotation detector of the repository exists as the TypeScript listeners and the
  pseudocode of the technical reference (Phases 2 to 6, the detection algorithm
  \<open>onSensorUpdate\<close> and \<open>calibrate\<close>) and of the proof-of-concept plan. Each
  listener is embedded as a function from the mutable references it reads and writes
  (gathered in one record) and the delivered sample to the updated record.

  JavaScript numbers are modelled as real numbers: every sample is taken to be finite
  and arithmetic exact, so \<open>NaN\<close>, infinities and rounding are outside the model.
  \<open>Date.now()\<close> is an integer number of milliseconds.
\<close>

subsection \<open>State\<close>

type_synonym vec3 = "real \<times> real \<times> real"

text \<open>
  The \<open>useState\<close> and \<open>useRef\<close> cells of Phases 2 to 6. An entry of
  \<open>detentHistory\<close> is the object \<open>{count, time}\<close>, written \<open>(count, time)\<close>.
\<close>

record engine =
  isAttached :: bool
  magBaseline :: real
  isStationary :: bool
  accelWindow :: "real list"
  angleAccum :: real
  lastTime :: int
  gyroBias :: real
  detents :: int
  detentHistory :: "(int \<times> int) list"

text \<open>
  The initial values of the cells: \<open>useState(false)\<close>, \<open>useState(50)\<close>,
  \<open>useRef([])\<close>, \<open>useRef(0)\<close>, \<open>useRef(Date.now())\<close>, \<open>useRef(0)\<close>,
  \<open>useState(0)\<close>, \<open>useRef([])\<close>; \<open>t0\<close> is the value of \<open>Date.now()\<close> at mount.
  The initial value of \<open>isStationary\<close> is not shown in the source and is taken as false.
\<close>

definition initialEngine :: "int \<Rightarrow> engine" where
  "initialEngine t0 =
     \<lparr>isAttached = False, magBaseline = 50, isStationary = False, accelWindow = [],
      angleAccum = 0, lastTime = t0, gyroBias = 0, detents = 0, detentHistory = []\<rparr>"

subsection \<open>Derived scalars\<close>

text \<open>\<open>Math.sqrt(x*x + y*y + z*z)\<close>\<close>

definition magnitude :: "vec3 \<Rightarrow> real" where
  "magnitude v = (case v of (x, y, z) \<Rightarrow> sqrt (x * x + y * y + z * z))"

text \<open>
  \<open>Math.sqrt(w.reduce((sum, v) => sum + v*v, 0) / w.length)\<close>: the root mean square
  written inline in Phase 3, and called \<open>calculateRMS\<close> in the plan. On the empty
  window the quotient is \<open>0 / 0\<close>, which is \<open>NaN\<close>: the result \<open>None\<close>.
\<close>

definition calculateRMS :: "real list \<Rightarrow> real option" where
  "calculateRMS w =
     (if w = [] then None
      else Some (sqrt (foldl (\<lambda>sum v. sum + v * v) 0 w / real (length w))))"

text \<open>\<open>rms < 0.03\<close>: a comparison with \<open>NaN\<close> is false.\<close>

definition js_less :: "real option \<Rightarrow> real \<Rightarrow> bool" where
  "js_less x y = (case x of None \<Rightarrow> False | Some r \<Rightarrow> r < y)"

subsection \<open>Phase 2: attachment detection\<close>

text \<open>
  \<^verbatim>\<open>
  Magnetometer.addListener(({ x, y, z }) => {
    const magnitude = Math.sqrt(x*x + y*y + z*z);
    const delta = magnitude - magBaseline;
    setIsAttached(delta > 40); // 40 uT threshold
  });
  \<close>
\<close>

definition magnetometerListener :: "engine \<Rightarrow> vec3 \<Rightarrow> engine" where
  "magnetometerListener s v =
     (let delta = magnitude v - magBaseline s
      in s\<lparr>isAttached := (delta > 40)\<rparr>)"

text \<open>The two thresholds of the table \<open>THRESHOLDS\<close>; the listener reads neither.\<close>

definition MAG_ATTACH_DELTA :: real where
  "MAG_ATTACH_DELTA = 40"

definition MAG_DETACH_DELTA :: real where
  "MAG_DETACH_DELTA = 20"

subsection \<open>Phase 3: stationarity gate\<close>

text \<open>
  \<^verbatim>\<open>
  Accelerometer.addListener(({ x, y, z }) => {
    const mag = Math.sqrt(x*x + y*y + z*z);
    accelWindow.current.push(mag);
    if (accelWindow.current.length > 20) { // 200ms @ 100Hz
      accelWindow.current.shift();
    }
    const rms = Math.sqrt(... / accelWindow.current.length);
    setIsStationary(rms < 0.03);
  });
  \<close>
\<close>

definition accelerometerListener :: "engine \<Rightarrow> vec3 \<Rightarrow> engine" where
  "accelerometerListener s v =
     (let mag = magnitude v;
          pushed = accelWindow s @ [mag];
          w = (if length pushed > 20 then tl pushed else pushed);
          rms = calculateRMS w
      in s\<lparr>accelWindow := w, isStationary := js_less rms 0.03\<rparr>)"

subsection \<open>Phase 4: rotation integration\<close>

text \<open>
  \<^verbatim>\<open>
  Gyroscope.addListener(({ z }) => {
    const now = Date.now();
    const dt = (now - lastTime.current) / 1000; // seconds
    lastTime.current = now;
    if (isAttached && isStationary) {
      const omega = z - gyroBias.current; // rad/s
      if (Math.abs(omega) > 0.52) { // 30 deg/s in rad/s
        angleAccum.current += omega * dt;
      }
    }
  });
  \<close>
  \<open>now\<close> is the value \<open>Date.now()\<close> returns inside the listener.
\<close>

definition gyroscopeListener :: "engine \<Rightarrow> int \<Rightarrow> real \<Rightarrow> engine" where
  "gyroscopeListener s now z =
     (let dt = real_of_int (now - lastTime s) / 1000;
          s1 = s\<lparr>lastTime := now\<rparr>
      in if isAttached s1 \<and> isStationary s1
         then (let omega = z - gyroBias s1
               in if \<bar>omega\<bar> > 0.52
                  then s1\<lparr>angleAccum := angleAccum s1 + omega * dt\<rparr>
                  else s1)
         else s1)"

subsection \<open>Phase 5: detent logic\<close>

text \<open>\<open>const DETENT = (30 * Math.PI) / 180\<close>\<close>

definition DETENT :: real where
  "DETENT = (30 * pi) / 180"

text \<open>
  \<^verbatim>\<open>
  // In rotation loop:
  if (Math.abs(angleAccum.current) >= DETENT) {
    const direction = angleAccum.current > 0 ? 1 : -1;
    setDetents(prev => prev + direction);
    angleAccum.current = 0;
    Haptics.impactAsync(Haptics.ImpactFeedbackStyle.Medium);
  }
  \<close>
  The second component of the result is the detent emitted by this run of the block (its
  direction; the haptic pulse goes with it), or \<open>None\<close> when the block is skipped.
\<close>

definition detentLogic :: "engine \<Rightarrow> engine \<times> int option" where
  "detentLogic s =
     (if \<bar>angleAccum s\<bar> \<ge> DETENT
      then (let direction = (if angleAccum s > 0 then 1 else -1)
            in (s\<lparr>detents := detents s + direction, angleAccum := 0\<rparr>, Some direction))
      else (s, None))"

text \<open>
  One gyroscope sample through the rotation loop: the Phase 4 listener, then the Phase 5
  block. The result carries the time of the sample with an emitted detent.
\<close>

definition gyroSample :: "engine \<Rightarrow> int \<Rightarrow> real \<Rightarrow> engine \<times> (int \<times> int) option" where
  "gyroSample s now z =
     (case detentLogic (gyroscopeListener s now z) of
        (s', None) \<Rightarrow> (s', None)
      | (s', Some direction) \<Rightarrow> (s', Some (direction, now)))"

subsection \<open>The detection algorithm in one function\<close>

text \<open>
  \<^verbatim>\<open>
  const DETENT_ANGLE = 30; // degrees
  const OMEGA_MIN = 30;    // deg/s
  const MAG_THRESH = 40;   // uT above baseline
  let angleAccum = 0;
  let detentCount = 0;
  function onSensorUpdate(gyro, accel, mag) {
    const isAttached = (mag.magnitude - baseline) > MAG_THRESH;
    const isStationary = calculateRMS(accel) < 0.03;
    const omega_z = gyro.z - gyroBias;
    if (isAttached && isStationary && Math.abs(omega_z) > OMEGA_MIN) {
      angleAccum += omega_z * dt;
      if (Math.abs(angleAccum) >= DETENT_ANGLE) {
        detentCount += (angleAccum > 0) ? 1 : -1;
        angleAccum = 0;
        triggerHaptic();
        if (detentCount >= 2) { confirmPayment(); }
        else if (detentCount <= -1) { cancelPayment(); }
      }
    }
  }
  \<close>
  The free variables \<open>baseline\<close>, \<open>gyroBias\<close> and \<open>dt\<close> of the function are
  fields of \<open>env\<close>; the two variables it assigns are the record \<open>detector\<close>, whose
  field \<open>angle\<close> is the function's \<open>angleAccum\<close>. The argument \<open>accel\<close> is what
  \<open>calculateRMS\<close> takes (the window of magnitudes), \<open>mag\<close> is \<open>mag.magnitude\<close> and
  \<open>gyro\<close> is \<open>gyro.z\<close>. The calls the function makes are returned in order.
\<close>

definition DETENT_ANGLE :: real where
  "DETENT_ANGLE = 30"

definition OMEGA_MIN :: real where
  "OMEGA_MIN = 30"

definition MAG_THRESH :: real where
  "MAG_THRESH = 40"

record env =
  baseline :: real
  bias :: real
  dt :: real

record detector =
  angle :: real
  detentCount :: int

datatype call = triggerHaptic | confirmPayment | cancelPayment

definition onSensorUpdate :: "env \<Rightarrow> detector \<Rightarrow> real \<times> real list \<times> real \<Rightarrow> detector \<times> call list" where
  "onSensorUpdate e d sample =
     (case sample of (gyro, accel, mag) \<Rightarrow>
        (let attached = (mag - baseline e > MAG_THRESH);
             stationary = js_less (calculateRMS accel) 0.03;
             omega_z = gyro - bias e
         in if attached \<and> stationary \<and> \<bar>omega_z\<bar> > OMEGA_MIN
            then (let a = angle d + omega_z * dt e
                  in if \<bar>a\<bar> \<ge> DETENT_ANGLE
                     then (let c = detentCount d + (if a > 0 then 1 else -1)
                           in (\<lparr>angle = 0, detentCount = c\<rparr>,
                               triggerHaptic #
                                 (if c \<ge> 2 then [confirmPayment]
                                  else if c \<le> -1 then [cancelPayment] else [])))
                     else (d\<lparr>angle := a\<rparr>, []))
            else (d, [])))"



subsection \<open>Phase 6: gesture recognition\<close>

text \<open>The callbacks the effect invokes: \<open>onConfirm()\<close> and \<open>onCancel()\<close>.\<close>

datatype gesture = onConfirm | onCancel

text \<open>\<open>const GESTURE_WINDOW = 3000; // ms\<close> (the reference writes 3000 in place).\<close>

definition GESTURE_WINDOW :: int where
  "GESTURE_WINDOW = 3000"

text \<open>
  \<^verbatim>\<open>
  useEffect(() => {
    const now = Date.now();
    detentHistory.current.push({ count: detents, time: now });
    // Keep only recent 3 seconds
    detentHistory.current = detentHistory.current.filter(
      d => now - d.time < 3000
    );
    const total = detentHistory.current.reduce((sum, d) => sum + d.count, 0);
    if (total >= 2) {
      onConfirm(); ...; resetGesture();
    } else if (total <= -1) {
      onCancel(); ...; resetGesture();
    }
  }, [detents]);
  \<close>
  \<open>gestureWindow\<close> is \<open>detentHistory.current\<close> after the push and the filter, and
  \<open>gestureTotal\<close> the \<open>reduce\<close>. The function \<open>resetGesture\<close> is called and not
  defined in the sources: it is the first argument of \<open>gestureEffect\<close>.
\<close>

definition gestureWindow :: "engine \<Rightarrow> int \<Rightarrow> (int \<times> int) list" where
  "gestureWindow s now =
     filter (\<lambda>d. now - snd d < 3000) (detentHistory s @ [(detents s, now)])"

definition gestureTotal :: "(int \<times> int) list \<Rightarrow> int" where
  "gestureTotal h = foldl (\<lambda>sum d. sum + fst d) 0 h"

definition gestureEffect :: "(engine \<Rightarrow> engine) \<Rightarrow> engine \<Rightarrow> int \<Rightarrow> engine \<times> gesture option" where
  "gestureEffect reset s now =
     (let s1 = s\<lparr>detentHistory := gestureWindow s now\<rparr>;
          total = gestureTotal (detentHistory s1)
      in if total \<ge> 2 then (reset s1, Some onConfirm)
         else if total \<le> -1 then (reset s1, Some onCancel)
         else (s1, None))"

text \<open>
  Modelled from the spec: \<open>resetGesture\<close>, which the sources call and do not define.
  The spec's reset forces the zeroed state and clears any partial gesture: the detent
  counter, the detent history and the accumulated angle.
\<close>

definition resetGesture :: "engine \<Rightarrow> engine" where
  "resetGesture s = s\<lparr>detents := 0, detentHistory := [], angleAccum := 0\<rparr>"

text \<open>
  One detent reaching the recognizer: \<open>setDetents(prev => prev + direction)\<close> of
  Phase 5, then the effect that the change of \<open>detents\<close> triggers, run at time \<open>now\<close>.
\<close>

definition detentEvent :: "(engine \<Rightarrow> engine) \<Rightarrow> engine \<Rightarrow> int \<times> int \<Rightarrow> engine \<times> gesture option" where
  "detentEvent reset s ev =
     (case ev of (direction, now) \<Rightarrow>
        gestureEffect reset (s\<lparr>detents := detents s + direction\<rparr>) now)"

text \<open>The results of a sequence of detents, one entry for each run of the effect.\<close>

fun gestureRun :: "(engine \<Rightarrow> engine) \<Rightarrow> engine \<Rightarrow> (int \<times> int) list \<Rightarrow> gesture option list" where
  "gestureRun reset s [] = []"
| "gestureRun reset s (ev # evs) =
     (case detentEvent reset s ev of (s', g) \<Rightarrow> g # gestureRun reset s' evs)"

text \<open>
  The component once mounted at time \<open>t0\<close>: the effect has run once, with the initial
  \<open>detents = 0\<close>.
\<close>

definition mounted :: "(engine \<Rightarrow> engine) \<Rightarrow> int \<Rightarrow> engine" where
  "mounted reset t0 = fst (gestureEffect reset (initialEngine t0) t0)"

subsection \<open>Calibration\<close>

text \<open>A sample as its listener receives it; a gyroscope sample with its \<open>Date.now()\<close>.\<close>

datatype sensorEvent = GyroEvent int real | AccelEvent vec3 | MagEvent vec3

text \<open>
  \<^verbatim>\<open>
  async function calibrate() {
    const gyroSamples: number[] = [];
    const magSamples: number[] = [];
    const gyroSub = Gyroscope.addListener(({ z }) => { gyroSamples.push(z); });
    const magSub = Magnetometer.addListener(({ x, y, z }) => {
      magSamples.push(Math.sqrt(x*x + y*y + z*z));
    });
    await new Promise(resolve => setTimeout(resolve, 1000));
    gyroBias.current = average(gyroSamples);
    magBaseline.current = average(magSamples);
    gyroSub.remove();
    magSub.remove();
  }
  \<close>
  \<open>events\<close> are the samples delivered during the 1000 ms of the timeout, in order of
  arrival. The helper \<open>average\<close> is not in the sources: it is the first argument.

  \<open>gyroBias\<close> is a reference (\<open>useRef(0)\<close>), and the assignment to its \<open>current\<close>
  installs the average. \<open>magBaseline\<close> is the value of
  \<open>const [magBaseline, setMagBaseline] = useState(50)\<close>, a number bound by \<open>const\<close>:
  the assignment to \<open>magBaseline.current\<close> (in the plan, to \<open>magBaseline\<close> itself)
  installs nothing and raises a \<open>TypeError\<close> in strict code, which modules are; the two
  calls of \<open>remove\<close> after it are not reached. No code calls \<open>setMagBaseline\<close>. The
  second component of the result is the error the call ends with.
\<close>

datatype jsError = TypeError

fun calibrationListeners :: "real list \<times> real list \<Rightarrow> sensorEvent \<Rightarrow> real list \<times> real list" where
  "calibrationListeners (gyroSamples, magSamples) (GyroEvent now z) = (gyroSamples @ [z], magSamples)"
| "calibrationListeners (gyroSamples, magSamples) (MagEvent v) = (gyroSamples, magSamples @ [magnitude v])"
| "calibrationListeners (gyroSamples, magSamples) (AccelEvent v) = (gyroSamples, magSamples)"

definition calibrate :: "(real list \<Rightarrow> real) \<Rightarrow> engine \<Rightarrow> sensorEvent list \<Rightarrow> engine \<times> jsError option" where
  "calibrate avg s events =
     (case foldl calibrationListeners ([], []) events of
        (gyroSamples, magSamples) \<Rightarrow>
          (s\<lparr>gyroBias := avg gyroSamples\<rparr>, Some TypeError))"

text \<open>
  Modelled from the spec: \<open>average\<close>, the mean of the samples (the spec's
  \<open>gyroBiasZ = mean(gyro.z samples)\<close>). It is used on non-empty lists only.
\<close>

definition average :: "real list \<Rightarrow> real" where
  "average xs = sum_list xs / real (length xs)"

subsection \<open>The listeners on a stream of samples\<close>

text \<open>
  Each sample is processed to completion by the listener of its sensor; for a gyroscope
  sample that is the rotation loop. No calibration takes place in such a run. The effect
  of Phase 6 is not part of it: the gates read nothing of what it writes.
\<close>

definition listener :: "engine \<Rightarrow> sensorEvent \<Rightarrow> engine" where
  "listener s ev =
     (case ev of
        GyroEvent now z \<Rightarrow> fst (gyroSample s now z)
      | AccelEvent v \<Rightarrow> accelerometerListener s v
      | MagEvent v \<Rightarrow> magnetometerListener s v)"

definition listeners :: "engine \<Rightarrow> sensorEvent list \<Rightarrow> engine" where
  "listeners s events = foldl listener s events"

text \<open>The detents emitted by a sequence of gyroscope samples \<open>(now, z)\<close>, one entry each.\<close>

fun gyroSamples :: "engine \<Rightarrow> (int \<times> real) list \<Rightarrow> (int \<times> int) option list" where
  "gyroSamples s [] = []"
| "gyroSamples s ((now, z) # rest) =
     (case gyroSample s now z of (s', d) \<Rightarrow> d # gyroSamples s' rest)"

subsection \<open>Thresholds that no listener reads\<close>

text \<open>
  From the table \<open>THRESHOLDS\<close>: \<open>STATIONARY_WINDOW: 200 // ms\<close>,
  \<open>DWELL_TIME: 75 // ms between detents\<close> and
  \<open>TILT_THRESHOLD: 8 // degrees from calibration\<close>.
\<close>

definition STATIONARY_WINDOW :: int where
  "STATIONARY_WINDOW = 200"

definition DWELL_TIME :: int where
  "DWELL_TIME = 75"

definition TILT_THRESHOLD :: real where
  "TILT_THRESHOLD = 8"

text \<open>
  The window the specification asks of the stationarity gate, in its words: the
  magnitudes of the accelerometer samples \<open>(timestamp, sample)\<close> whose timestamps fall
  within the last \<open>STATIONARY_WINDOW\<close> milliseconds before \<open>now\<close>.
\<close>

definition spec_timeWindow :: "int \<Rightarrow> (int \<times> vec3) list \<Rightarrow> real list" where
  "spec_timeWindow now samples =
     map (\<lambda>p. magnitude (snd p)) (filter (\<lambda>p. now - fst p < STATIONARY_WINDOW) samples)"

text \<open>
  The code on the same timestamped samples: the listener is handed \<open>{x, y, z}\<close> only.
\<close>

definition accelerometerSamples :: "engine \<Rightarrow> (int \<times> vec3) list \<Rightarrow> engine" where
  "accelerometerSamples s samples = foldl accelerometerListener s (map snd samples)"

section \<open>Evaluating the derived scalars\<close>

lemma magnitude_axis: "0 \<le> z \<Longrightarrow> magnitude (0, 0, z) = z"
  by (simp add: magnitude_def)

lemma calculateRMS_single: "calculateRMS [m] = Some \<bar>m\<bar>"
  by (simp add: calculateRMS_def)

lemma rms_one_zero: "\<not> js_less (calculateRMS [1, 0]) 0.03"
proof -
  have "(3 / 100)\<^sup>2 \<le> (1 / 2 :: real)"
    by (simp add: power2_eq_square)
  then have "3 / 100 \<le> sqrt (1 / 2)"
    by (rule real_le_rsqrt)
  then show ?thesis
    by (simp add: calculateRMS_def js_less_def)
qed

lemma DETENT_bounds: "0 < DETENT" "DETENT < 7 / 10" "1 / 4 < DETENT"
  using pi_ge_two pi_less_4 by (simp_all add: DETENT_def)

section \<open>The accumulator stays below one detent\<close>



lemma onSensorUpdate_detent_resets:
  assumes "triggerHaptic \<in> set (snd (onSensorUpdate e d sample))"
  shows "angle (fst (onSensorUpdate e d sample)) = 0"
proof (cases sample)
  case (fields gyro accel mag)
  show ?thesis
    using assms unfolding onSensorUpdate_def fields
    by (simp add: Let_def split: if_splits)
qed




text \<open>The rotation loop of Phases 4 and 5 keeps the same bound, from any state.\<close>

lemma gyroSample_angle_bound: "\<bar>angleAccum (fst (gyroSample s now z))\<bar> < DETENT"
  using DETENT_bounds(1)
  by (simp add: gyroSample_def detentLogic_def Let_def not_le split: option.splits)

section \<open>Gesture recognition\<close>

text \<open>
  C1. The claim: each detent processed by the recognizer appends its direction (+1 or
  -1) and timestamp, and Confirm is emitted exactly when the sum of the retained
  directions reaches 2. The effect of Phase 6 pushes \<open>count: detents\<close>, the running
  detent counter, and sums those. Evaluated: after one clockwise detent (entry
  \<open>(1, 1000)\<close>) a second clockwise detent at 1500 ms appends \<open>(2, 1500)\<close>, not a
  direction; and a clockwise, a counter-clockwise and a clockwise detent inside the
  window, whose directions sum to 1, end in \<open>onConfirm\<close>.
\<close>

theorem gesture_total_sums_running_counter:
  "gestureWindow ((initialEngine 0)\<lparr>detents := 2, detentHistory := [(0, 0), (1, 1000)]\<rparr>) 1500 =
     [(0, 0), (1, 1000), (2, 1500)] \<and>
   gestureRun resetGesture (mounted resetGesture 0) [(1, 1000), (-1, 1500), (1, 2000)] =
     [None, None, Some onConfirm]"
  by (simp add: mounted_def detentEvent_def gestureEffect_def gestureWindow_def gestureTotal_def
      initialEngine_def Let_def)

text \<open>
  After a gap of \<open>GESTURE_WINDOW\<close> or more the pruning removes every earlier entry, and
  the window is the entry pushed for the new detent alone, with the running counter.
\<close>

lemma gestureWindow_after_gap:
  "(\<forall>d \<in> set (detentHistory s). GESTURE_WINDOW \<le> now - snd d) \<Longrightarrow>
   gestureWindow s now = [(detents s, now)]"
  by (simp add: gestureWindow_def GESTURE_WINDOW_def filter_empty_conv not_less)

text \<open>
  C6. The claim: one clockwise detent, a gap longer than the gesture window and a second
  clockwise detent give a timeout and a fresh episode, never a Confirm counting the stale
  first detent. Evaluated: a clockwise detent at 1000 ms and, 4000 ms later, a second
  one: the first entry is pruned, the entry pushed for the second detent carries the
  running counter 2, and the effect ends in \<open>onConfirm\<close>; no timeout is reported.
\<close>

theorem stale_detent_gives_confirm:
  "gestureRun resetGesture (mounted resetGesture 0) [(1, 1000), (1, 5000)] = [None, Some onConfirm] \<and>
   gestureWindow ((initialEngine 0)\<lparr>detents := 2, detentHistory := [(0, 0), (1, 1000)]\<rparr>) 5000 =
     [(2, 5000)]"
  by (simp add: mounted_def detentEvent_def gestureEffect_def gestureWindow_def gestureTotal_def
      initialEngine_def Let_def)

section \<open>The gates without a calibration\<close>

lemma listener_magBaseline: "magBaseline (listener s ev) = magBaseline s"
  by (cases ev)
    (simp_all add: listener_def gyroSample_def detentLogic_def gyroscopeListener_def
      accelerometerListener_def magnetometerListener_def Let_def split: prod.splits option.splits)

lemma listeners_magBaseline: "magBaseline (listeners s events) = magBaseline s"
  unfolding listeners_def
  by (induction events arbitrary: s) (simp_all add: listener_magBaseline)

lemma accelerometerListener_stationary:
  "isStationary (accelerometerListener s v) =
     js_less (calculateRMS (accelWindow (accelerometerListener s v))) 0.03"
  by (simp add: accelerometerListener_def Let_def)

lemma accelerometerListener_window:
  "accelWindow (accelerometerListener s v) =
     (if length (accelWindow s) \<ge> 20 then tl (accelWindow s @ [magnitude v])
      else accelWindow s @ [magnitude v])"
  by (simp add: accelerometerListener_def Let_def)

lemma accel_window_fold:
  "length (accelWindow s) \<le> 20 \<Longrightarrow>
   accelWindow (foldl accelerometerListener s vs) =
     drop (length (accelWindow s) + length vs - 20) (accelWindow s @ map magnitude vs)"
proof (induction vs arbitrary: s)
  case Nil
  then show ?case by simp
next
  case (Cons v vs)
  let ?s' = "accelerometerListener s v"
  show ?case
  proof (cases "length (accelWindow s) = 20")
    case True
    then have w: "accelWindow ?s' = tl (accelWindow s) @ [magnitude v]"
      by (cases "accelWindow s") (simp_all add: accelerometerListener_window)
    have len: "length (accelWindow ?s') = 20"
      using True w by simp
    have "accelWindow (foldl accelerometerListener ?s' vs) =
        drop (length vs) (tl (accelWindow s) @ [magnitude v] @ map magnitude vs)"
      using Cons.IH [of ?s'] len w by simp
    also have "\<dots> = drop (Suc (length vs)) (accelWindow s @ magnitude v # map magnitude vs)"
      using True by (cases "accelWindow s") simp_all
    finally show ?thesis
      using True by simp
  next
    case False
    with Cons.prems have short: "length (accelWindow s) < 20" by simp
    then have w: "accelWindow ?s' = accelWindow s @ [magnitude v]"
      by (simp add: accelerometerListener_window)
    then have "length (accelWindow ?s') \<le> 20"
      using short by simp
    from Cons.IH [OF this] w show ?thesis by simp
  qed
qed

text \<open>Only the accelerometer samples of a stream reach the window.\<close>

lemma listener_accelWindow_other:
  "accelWindow (listener s (GyroEvent now z)) = accelWindow s"
  "accelWindow (listener s (MagEvent v)) = accelWindow s"
  by (simp_all add: listener_def gyroSample_def detentLogic_def gyroscopeListener_def
      magnetometerListener_def Let_def split: prod.splits option.splits)

lemma listeners_accelWindow:
  "accelWindow s = accelWindow s' \<Longrightarrow>
   accelWindow (listeners s events) =
     accelWindow (foldl accelerometerListener s' [a. AccelEvent a \<leftarrow> events])"
  unfolding listeners_def
proof (induction events arbitrary: s s')
  case Nil
  then show ?case by simp
next
  case (Cons ev events)
  show ?case
  proof (cases ev)
    case (GyroEvent now z)
    with Cons.prems have "accelWindow (listener s ev) = accelWindow s'"
      by (simp add: listener_accelWindow_other)
    from Cons.IH [OF this] GyroEvent show ?thesis by simp
  next
    case (MagEvent v)
    with Cons.prems have "accelWindow (listener s ev) = accelWindow s'"
      by (simp add: listener_accelWindow_other)
    from Cons.IH [OF this] MagEvent show ?thesis by simp
  next
    case (AccelEvent a)
    with Cons.prems
    have "accelWindow (listener s ev) = accelWindow (accelerometerListener s' a)"
      by (simp add: listener_def accelerometerListener_window)
    from Cons.IH [OF this] AccelEvent show ?thesis by simp
  qed
qed

lemma uncalibrated_window:
  "accelWindow (accelerometerListener (listeners (initialEngine t0) events) v) =
     drop (length [a. AccelEvent a \<leftarrow> events] + 1 - 20)
       (map magnitude ([a. AccelEvent a \<leftarrow> events] @ [v]))"
proof -
  have "accelerometerListener (listeners (initialEngine t0) events) v =
      listeners (initialEngine t0) (events @ [AccelEvent v])"
    by (simp add: listeners_def listener_def)
  moreover have "accelWindow (listeners (initialEngine t0) (events @ [AccelEvent v])) =
      accelWindow (foldl accelerometerListener (initialEngine t0)
        [a. AccelEvent a \<leftarrow> events @ [AccelEvent v]])"
    by (rule listeners_accelWindow) simp
  moreover have "length (accelWindow (initialEngine t0)) \<le> 20"
    by (simp add: initialEngine_def)
  ultimately show ?thesis
    using accel_window_fold [of "initialEngine t0" "[a. AccelEvent a \<leftarrow> events] @ [v]"]
    by (simp add: initialEngine_def)
qed

text \<open>
  C2, as stated, fails: with no calibration ever run, a magnetometer sample of magnitude
  100 sets \<open>isAttached\<close>, and an accelerometer sample of magnitude 0 sets
  \<open>isStationary\<close>.
\<close>

theorem uncalibrated_gates_report_true:
  "isAttached (magnetometerListener (initialEngine 0) (0, 0, 100)) \<and>
   isStationary (accelerometerListener (initialEngine 0) (0, 0, 0))"
  by (simp add: magnetometerListener_def accelerometerListener_def initialEngine_def
      magnitude_axis calculateRMS_single js_less_def Let_def)

text \<open>
  C2, amended. For every sample processed before any calibration (after any sequence of
  samples from the initial state), the attachment gate compares the magnitude with the
  default baseline of 50: it reports true exactly when the magnitude exceeds
  \<open>50 + 40\<close>; the stationarity gate does not depend on calibration: it reports true
  exactly when the root mean square of the magnitudes of the last 20 accelerometer
  samples, this one included, is below 0.03. Integration and detents therefore occur
  while uncalibrated: after a magnetometer sample of magnitude 100 and an accelerometer
  sample of magnitude 0, a gyroscope sample of 1 rad/s at 10 ms is integrated (0.01
  rad), and one of 12 rad/s at 60 ms emits a detent.
\<close>

theorem uncalibrated_gates_are_threshold_tests:
  "isAttached (magnetometerListener (listeners (initialEngine t0) events) v) = (magnitude v > 90) \<and>
   isStationary (accelerometerListener (listeners (initialEngine t0) events) v) =
     js_less (calculateRMS (drop (length [a. AccelEvent a \<leftarrow> events] + 1 - 20)
       (map magnitude ([a. AccelEvent a \<leftarrow> events] @ [v])))) 0.03 \<and>
   angleAccum (listeners (initialEngine 0)
     [MagEvent (0, 0, 100), AccelEvent (0, 0, 0), GyroEvent 10 1]) = 1 / 100 \<and>
   gyroSamples (listeners (initialEngine 0) [MagEvent (0, 0, 100), AccelEvent (0, 0, 0)])
     [(60, 12)] = [Some (1, 60)]"
proof (intro conjI)
  show "isAttached (magnetometerListener (listeners (initialEngine t0) events) v) = (magnitude v > 90)"
    by (simp add: magnetometerListener_def listeners_magBaseline initialEngine_def Let_def)
  show "isStationary (accelerometerListener (listeners (initialEngine t0) events) v) =
     js_less (calculateRMS (drop (length [a. AccelEvent a \<leftarrow> events] + 1 - 20)
       (map magnitude ([a. AccelEvent a \<leftarrow> events] @ [v])))) 0.03"
    by (simp only: accelerometerListener_stationary uncalibrated_window)
  have docked: "listeners (initialEngine 0) [MagEvent (0, 0, 100), AccelEvent (0, 0, 0)] =
      (initialEngine 0)\<lparr>isAttached := True, isStationary := True, accelWindow := [0]\<rparr>"
    by (simp add: listeners_def listener_def magnetometerListener_def accelerometerListener_def
        initialEngine_def magnitude_axis calculateRMS_single js_less_def Let_def)
  have "listeners (initialEngine 0) [MagEvent (0, 0, 100), AccelEvent (0, 0, 0), GyroEvent 10 1] =
      listener (listeners (initialEngine 0) [MagEvent (0, 0, 100), AccelEvent (0, 0, 0)]) (GyroEvent 10 1)"
    by (simp add: listeners_def)
  then show "angleAccum (listeners (initialEngine 0)
     [MagEvent (0, 0, 100), AccelEvent (0, 0, 0), GyroEvent 10 1]) = 1 / 100"
    using DETENT_bounds unfolding docked
    by (simp add: listener_def gyroSample_def detentLogic_def gyroscopeListener_def
        initialEngine_def Let_def)
  show "gyroSamples (listeners (initialEngine 0) [MagEvent (0, 0, 100), AccelEvent (0, 0, 0)])
     [(60, 12)] = [Some (1, 60)]"
    using DETENT_bounds unfolding docked
    by (simp add: gyroSample_def detentLogic_def gyroscopeListener_def initialEngine_def Let_def)
qed

section \<open>Calibration\<close>

lemma calibrationListeners_fold:
  "foldl calibrationListeners (gs, ms) events =
     (gs @ [z. GyroEvent now z \<leftarrow> events], ms @ [magnitude v. MagEvent v \<leftarrow> events])"
proof (induction events arbitrary: gs ms)
  case Nil
  then show ?case by simp
next
  case (Cons ev events)
  then show ?case by (cases ev) simp_all
qed

text \<open>
  C3, as stated, fails: a calibration during which one gyroscope sample and one
  magnetometer sample arrive does not leave the previous calibration unchanged: the bias,
  0 before, is the single sample after.
\<close>

theorem calibrate_one_sample_replaces_calibration:
  "gyroBias (initialEngine 0) = 0 \<and>
   gyroBias (fst (calibrate average (initialEngine 0) [GyroEvent 10 1, MagEvent (0, 0, 60)])) = 1"
  by (simp add: calibrate_def average_def initialEngine_def)

text \<open>
  C3, amended. Every call of \<open>calibrate\<close> replaces the previous gyroscope bias by the
  average of the gyroscope \<open>z\<close> samples that arrived during its window, however few
  they are: no minimum number of samples is checked.
\<close>

theorem calibrate_installs_averages:
  "gyroBias (fst (calibrate avg s events)) = avg [z. GyroEvent now z \<leftarrow> events]"
  by (simp add: calibrate_def calibrationListeners_fold)

section \<open>Attachment gate\<close>

text \<open>
  C4. The claim: once attached, the gate stays true on every sample whose delta is at
  least \<open>MAG_DETACH_DELTA\<close>. Evaluated: baseline 50, a sample of magnitude 100
  attaches; the next sample, of magnitude 80 (delta 30, between the two thresholds),
  sets \<open>isAttached\<close> to false.
\<close>

theorem attachment_drops_without_hysteresis:
  "isAttached (magnetometerListener (initialEngine 0) (0, 0, 100)) = True \<and>
   isAttached (magnetometerListener (magnetometerListener (initialEngine 0) (0, 0, 100)) (0, 0, 80)) = False \<and>
   magnitude (0, 0, 80) - magBaseline (magnetometerListener (initialEngine 0) (0, 0, 100)) = 30 \<and>
   MAG_DETACH_DELTA \<le> 30"
  by (simp add: magnetometerListener_def initialEngine_def magnitude_axis MAG_DETACH_DELTA_def)

section \<open>Detents and dwell\<close>

text \<open>
  C5. The claim: two consecutive detents are at least \<open>DWELL_TIME\<close> apart. Evaluated:
  attached and stationary, two gyroscope samples of 12 rad/s at 60 ms and 120 ms each
  cross the detent angle (0.72 rad), and each emits a detent: two detents 60 ms apart.
\<close>

theorem detents_emitted_within_dwell_time:
  "gyroSamples ((initialEngine 0)\<lparr>isAttached := True, isStationary := True\<rparr>)
     [(60, 12), (120, 12)] = [Some (1, 60), Some (1, 120)] \<and> 120 - 60 < DWELL_TIME"
  using DETENT_bounds
  by (simp add: gyroSample_def detentLogic_def gyroscopeListener_def initialEngine_def
      DWELL_TIME_def Let_def)

section \<open>Integration\<close>

lemma gyroscopeListener_lastTime: "lastTime (gyroscopeListener s now z) = now"
  by (simp add: gyroscopeListener_def Let_def)

lemma gyroscopeListener_gates:
  "isAttached (gyroscopeListener s now z) = isAttached s"
  "isStationary (gyroscopeListener s now z) = isStationary s"
  "gyroBias (gyroscopeListener s now z) = gyroBias s"
  by (simp_all add: gyroscopeListener_def Let_def)

text \<open>
  C7, as stated, fails. A sample of 1 rad/s delivered 10000 ms after the previous one
  adds 10 rad, not at most \<open>1 * 0.05\<close>. And the time is counted from the previous
  sample, not from the last integrated one: of the samples at 10 ms (1 rad/s,
  integrated), 20 ms (0.1 rad/s, below the threshold, not integrated) and 30 ms
  (1 rad/s, integrated), the last adds \<open>1 * 0.01\<close>, for a total of 0.02, where the time
  since the last integrated sample, 20 ms, gives 0.03.
\<close>

theorem delivery_gap_integrated_unclamped:
  "angleAccum
     (gyroscopeListener ((initialEngine 0)\<lparr>isAttached := True, isStationary := True\<rparr>) 10000 1) = 10 \<and>
   angleAccum
     (gyroscopeListener (gyroscopeListener
        (gyroscopeListener ((initialEngine 0)\<lparr>isAttached := True, isStationary := True\<rparr>) 10 1)
        20 (1 / 10)) 30 1) = 2 / 100"
  by (simp add: gyroscopeListener_def initialEngine_def Let_def)

text \<open>
  C7, amended. For every gyroscope sample integrated while attached and stationary with
  \<open>|omega| > 0.52\<close>, the accumulated angle increases by exactly \<open>omega * dt\<close>, where
  \<open>dt\<close> is the wall-clock time in seconds since the previous gyroscope sample, with
  no upper bound: every gyroscope sample, integrated or not, sets \<open>lastTime\<close> to its
  own time, so after any sample at time \<open>t\<close> the next integrated sample adds
  \<open>omega * (now - t) / 1000\<close>.
\<close>

theorem integration_adds_omega_dt:
  "isAttached s \<and> isStationary s \<and> \<bar>z - gyroBias s\<bar> > 0.52 \<Longrightarrow>
   angleAccum (gyroscopeListener s now z) =
     angleAccum s + (z - gyroBias s) * (real_of_int (now - lastTime s) / 1000) \<and>
   lastTime (gyroscopeListener s' now' z') = now' \<and>
   angleAccum (gyroscopeListener (gyroscopeListener s t z') now z) =
     angleAccum (gyroscopeListener s t z') + (z - gyroBias s) * (real_of_int (now - t) / 1000)"
  by (simp add: gyroscopeListener_def Let_def)

theorem integration_adds_omega_dt_witness:
  "(isAttached ((initialEngine 0)\<lparr>isAttached := True, isStationary := True\<rparr>) \<and>
    isStationary ((initialEngine 0)\<lparr>isAttached := True, isStationary := True\<rparr>) \<and>
    \<bar>1 - gyroBias ((initialEngine 0)\<lparr>isAttached := True, isStationary := True\<rparr>)\<bar> > 0.52) \<and>
   angleAccum
     (gyroscopeListener ((initialEngine 0)\<lparr>isAttached := True, isStationary := True\<rparr>) 30 1) = 3 / 100 \<and>
   lastTime
     (gyroscopeListener ((initialEngine 0)\<lparr>isAttached := True, isStationary := True\<rparr>) 20 (1 / 10)) = 20 \<and>
   angleAccum
     (gyroscopeListener
        (gyroscopeListener ((initialEngine 0)\<lparr>isAttached := True, isStationary := True\<rparr>) 20 (1 / 10))
        30 1) = 1 / 100"
  using integration_adds_omega_dt
    [where s = "(initialEngine 0)\<lparr>isAttached := True, isStationary := True\<rparr>"
      and z = 1 and now = 30
      and s' = "(initialEngine 0)\<lparr>isAttached := True, isStationary := True\<rparr>"
      and now' = 20 and z' = "1 / 10" and t = 20]
  by (simp add: initialEngine_def gyroscopeListener_def Let_def)

section \<open>Tilt\<close>

text \<open>
  C8. The claim: a tilt beyond \<open>TILT_THRESHOLD\<close> zeroes the accumulated angle and
  clears the partial gesture. Evaluated: with 0.4 rad accumulated and one detent counted,
  an accelerometer sample \<open>(0.6, 0, 0.8)\<close>, tilted by more than 36 degrees from the
  flat \<open>(0, 0, 1)\<close>, leaves the accumulated angle, the detent counter and the detent
  history as they were.
\<close>

theorem tilt_sample_keeps_partial_gesture:
  "(let s = (initialEngine 0)\<lparr>isAttached := True, isStationary := True, angleAccum := 2 / 5,
              detents := 1, detentHistory := [(0, 0), (1, 1000)]\<rparr>;
        s' = accelerometerListener s (3 / 5, 0, 4 / 5)
    in angleAccum s' = 2 / 5 \<and> detents s' = 1 \<and> detentHistory s' = [(0, 0), (1, 1000)])"
  by (simp add: accelerometerListener_def initialEngine_def Let_def)

section \<open>The window of the stationarity gate\<close>

text \<open>
  C9, as stated, fails: of two accelerometer samples 10000 ms apart, of magnitudes 1 and
  0, both are in the window, so the gate reports moving, where the samples of the last
  \<open>STATIONARY_WINDOW\<close> (200 ms) are the second alone, with a root mean square of 0.
\<close>

theorem accel_window_keeps_old_sample:
  "accelWindow (accelerometerSamples (initialEngine 0) [(0, (0, 0, 1)), (10000, (0, 0, 0))]) = [1, 0] \<and>
   spec_timeWindow 10000 [(0, (0, 0, 1)), (10000, (0, 0, 0))] = [0] \<and>
   \<not> isStationary (accelerometerSamples (initialEngine 0) [(0, (0, 0, 1)), (10000, (0, 0, 0))]) \<and>
   js_less (calculateRMS (spec_timeWindow 10000 [(0, (0, 0, 1)), (10000, (0, 0, 0))])) 0.03"
  using rms_one_zero
  by (simp add: accelerometerSamples_def accelerometerListener_def initialEngine_def
      spec_timeWindow_def STATIONARY_WINDOW_def magnitude_axis Let_def calculateRMS_single js_less_def)

text \<open>
  C9, amended. At every sample rate, the window of the stationarity gate holds the
  magnitudes of the last 20 accelerometer samples (all of them while fewer than 20 have
  arrived), whatever their timestamps: it is bounded by count, so its time span varies
  with the rate. After each sample the gate reports whether the root mean square of that
  window is below 0.03.
\<close>

theorem accel_window_last_20_samples:
  "accelWindow (accelerometerSamples (initialEngine t0) samples) =
     drop (length samples - 20) (map (\<lambda>p. magnitude (snd p)) samples) \<and>
   isStationary (accelerometerSamples (initialEngine t0) (samples @ [p])) =
     js_less (calculateRMS (accelWindow (accelerometerSamples (initialEngine t0) (samples @ [p])))) 0.03"
proof
  have "length (accelWindow (initialEngine t0)) \<le> 20"
    by (simp add: initialEngine_def)
  from accel_window_fold [OF this, of "map snd samples"]
  show "accelWindow (accelerometerSamples (initialEngine t0) samples) =
     drop (length samples - 20) (map (\<lambda>p. magnitude (snd p)) samples)"
    by (simp add: accelerometerSamples_def initialEngine_def comp_def)
next
  show "isStationary (accelerometerSamples (initialEngine t0) (samples @ [p])) =
     js_less (calculateRMS (accelWindow (accelerometerSamples (initialEngine t0) (samples @ [p])))) 0.03"
    by (simp add: accelerometerSamples_def accelerometerListener_stationary)
qed

end
